theory Spec2Isabelle
  imports Main "HOL-Library.Word"
begin

section \<open>Memory model\<close>

text \<open>
  The header \<^verbatim>\<open>smart_pointers.h\<close> manipulates control blocks through raw pointers.
  The model keeps an explicit store of the control blocks that are currently allocated,
  and every access through a \<^verbatim>\<open>BaseControlBlock*\<close> is a lookup in that store: a null
  pointer and a pointer to a block that has been released are undefined behaviour in C++
  and are values of \<open>error\<close> here.  The third value, \<open>IllFormed\<close>, stands for a member
  function whose instantiation the compiler rejects, so that no program can call it.
  Counters are \<^verbatim>\<open>size_t\<close>, taken as 64 bits wide.
\<close>

type_synonym size_t = "64 word"

type_synonym addr = nat

datatype error = NullDeref | UseAfterFree | IllFormed

text \<open>
  A payload pointer \<^verbatim>\<open>T*\<close> names an object and a subobject offset inside it.  The object
  is either one the caller allocated and handed over (\<open>Adopted\<close>), or the member
  \<^verbatim>\<open>data\<close> of the combined control block at the given address (\<open>Data\<close>).
  \<^verbatim>\<open>static_cast<T*>\<close> from a derived to a base type keeps null, and otherwise moves to
  the base subobject of the same object; \<open>d\<close> is the offset of that subobject.
\<close>

datatype object = Adopted addr | Data addr

datatype raw_ptr = Ptr (object_of: object) (offset_of: nat)

definition static_cast :: "nat \<Rightarrow> raw_ptr option \<Rightarrow> raw_ptr option" where
  "static_cast d p = map_option (\<lambda>q. Ptr (object_of q) (offset_of q + d)) p"

text \<open>
  The deleter stored in a \<^verbatim>\<open>ControlBlockRegular\<close>: \<^verbatim>\<open>std::default_delete<T>\<close>, which
  evaluates \<^verbatim>\<open>delete ptr\<close> and so runs the payload's destructor, or a callable of the
  embedder that leaves the payload and every smart pointer alone.
\<close>

datatype Deleter = default_delete | custom_deleter

datatype variant = ControlBlockRegular Deleter "raw_ptr option" | ControlBlockMakeShared

record BaseControlBlock =
  shared_cnt :: size_t
  weak_cnt :: size_t
  variant :: variant

record SharedPtr =
  cb :: "addr option"
  ptr :: "raw_ptr option"

record WeakPtr =
  cb :: "addr option"
  ptr :: "raw_ptr option"

text \<open>What the three virtual functions of a control block do to the outside world.\<close>

datatype event = Deleted addr | Destroyed addr | Deallocated addr

text \<open>
  \<open>blocks\<close> holds the allocated control blocks, \<open>next_free\<close> is the address the
  allocator hands out next, \<open>wptrs\<close> holds the weak-pointer member of every live payload
  object that has one (the member \<^verbatim>\<open>wptr\<close> when the payload type derives from
  \<^verbatim>\<open>EnableSharedFromThis\<close>), and \<open>trace\<close> records the calls of deleters, in-place
  destructors and deallocations in the order they happen.
\<close>

record state =
  blocks :: "addr \<rightharpoonup> BaseControlBlock"
  next_free :: addr
  wptrs :: "object \<rightharpoonup> WeakPtr"
  trace :: "event list"

definition init :: state where
  "init = \<lparr>blocks = Map.empty, next_free = 0, wptrs = Map.empty, trace = []\<rparr>"

definition seq :: "error + 'a \<Rightarrow> ('a \<Rightarrow> error + 'b) \<Rightarrow> error + 'b" where
  "seq m k = (case m of Inl e \<Rightarrow> Inl e | Inr x \<Rightarrow> k x)"

definition with_block ::
  "state \<Rightarrow> addr option \<Rightarrow> (addr \<Rightarrow> BaseControlBlock \<Rightarrow> error + 'a) \<Rightarrow> error + 'a" where
  "with_block st c k =
     (case c of
        None \<Rightarrow> Inl NullDeref
      | Some a \<Rightarrow> (case blocks st a of None \<Rightarrow> Inl UseAfterFree | Some b \<Rightarrow> k a b))"

definition load :: "state \<Rightarrow> addr option \<Rightarrow> error + BaseControlBlock" where
  "load st c = with_block st c (\<lambda>a b. Inr b)"

definition inc_shared :: "state \<Rightarrow> addr option \<Rightarrow> error + state" where
  "inc_shared st c =
     with_block st c (\<lambda>a b. Inr (st\<lparr>blocks := (blocks st)(a \<mapsto> b\<lparr>shared_cnt := shared_cnt b + 1\<rparr>)\<rparr>))"

definition dec_shared :: "state \<Rightarrow> addr option \<Rightarrow> error + state" where
  "dec_shared st c =
     with_block st c (\<lambda>a b. Inr (st\<lparr>blocks := (blocks st)(a \<mapsto> b\<lparr>shared_cnt := shared_cnt b - 1\<rparr>)\<rparr>))"

definition inc_weak :: "state \<Rightarrow> addr option \<Rightarrow> error + state" where
  "inc_weak st c =
     with_block st c (\<lambda>a b. Inr (st\<lparr>blocks := (blocks st)(a \<mapsto> b\<lparr>weak_cnt := weak_cnt b + 1\<rparr>)\<rparr>))"

definition dec_weak :: "state \<Rightarrow> addr option \<Rightarrow> error + state" where
  "dec_weak st c =
     with_block st c (\<lambda>a b. Inr (st\<lparr>blocks := (blocks st)(a \<mapsto> b\<lparr>weak_cnt := weak_cnt b - 1\<rparr>)\<rparr>))"

definition allocate :: "state \<Rightarrow> addr \<times> state" where
  "allocate st = (next_free st, st\<lparr>next_free := Suc (next_free st)\<rparr>)"

definition new_object :: "state \<Rightarrow> object \<Rightarrow> state" where
  "new_object st obj = st\<lparr>wptrs := (wptrs st)(obj \<mapsto> \<lparr>WeakPtr.cb = None, WeakPtr.ptr = None\<rparr>)\<rparr>"

section \<open>Control blocks\<close>

definition Deallocate :: "state \<Rightarrow> addr option \<Rightarrow> error + state" where
  "Deallocate st c =
     with_block st c (\<lambda>a b.
       Inr (st\<lparr>blocks := (blocks st)(a := None), trace := trace st @ [Deallocated a]\<rparr>))"

section \<open>WeakPtr: destructor\<close>

definition WeakPtr_dtor :: "state \<Rightarrow> WeakPtr \<Rightarrow> error + (state \<times> WeakPtr)" where
  "WeakPtr_dtor st this =
     (if WeakPtr.cb this = None then Inr (st, this)
      else
        seq (dec_weak st (WeakPtr.cb this)) (\<lambda>st1.
        seq (load st1 (WeakPtr.cb this)) (\<lambda>b.
          if weak_cnt b = 0 \<and> shared_cnt b = 0 then
            seq (Deallocate st1 (WeakPtr.cb this)) (\<lambda>st2.
              Inr (st2, \<lparr>WeakPtr.cb = None, WeakPtr.ptr = None\<rparr>))
          else Inr (st1, \<lparr>WeakPtr.cb = None, WeakPtr.ptr = None\<rparr>))))"

section \<open>Payload destruction\<close>

text \<open>
  The destructor of a payload destroys its weak-pointer member, if it has one; a payload
  without one has nothing the model tracks.
\<close>

definition payload_dtor :: "state \<Rightarrow> object \<Rightarrow> error + state" where
  "payload_dtor st obj =
     (case wptrs st obj of
        None \<Rightarrow> Inr st
      | Some w \<Rightarrow>
          seq (WeakPtr_dtor st w) (\<lambda>(st1, w1). Inr (st1\<lparr>wptrs := (wptrs st1)(obj := None)\<rparr>)))"

definition call_deleter :: "Deleter \<Rightarrow> raw_ptr option \<Rightarrow> state \<Rightarrow> error + state" where
  "call_deleter d p st =
     (case d of
        custom_deleter \<Rightarrow> Inr st
      | default_delete \<Rightarrow>
          (case p of None \<Rightarrow> Inr st | Some q \<Rightarrow> payload_dtor st (object_of q)))"

definition useDeleter :: "state \<Rightarrow> addr option \<Rightarrow> error + state" where
  "useDeleter st c =
     with_block st c (\<lambda>a b.
       case variant b of
         ControlBlockRegular d p \<Rightarrow> call_deleter d p (st\<lparr>trace := trace st @ [Deleted a]\<rparr>)
       | ControlBlockMakeShared \<Rightarrow> Inr st)"

definition Destroy :: "state \<Rightarrow> addr option \<Rightarrow> error + state" where
  "Destroy st c =
     with_block st c (\<lambda>a b.
       case variant b of
         ControlBlockRegular d p \<Rightarrow> Inr st
       | ControlBlockMakeShared \<Rightarrow>
           payload_dtor (st\<lparr>trace := trace st @ [Destroyed a]\<rparr>) (Data a))"

section \<open>SharedPtr\<close>

definition SharedPtr_default :: SharedPtr where
  "SharedPtr_default = \<lparr>SharedPtr.cb = None, SharedPtr.ptr = None\<rparr>"

definition WeakPtr_default :: WeakPtr where
  "WeakPtr_default = \<lparr>WeakPtr.cb = None, WeakPtr.ptr = None\<rparr>"

definition SharedPtr_copy :: "state \<Rightarrow> SharedPtr \<Rightarrow> error + (state \<times> SharedPtr)" where
  "SharedPtr_copy st other =
     (let this = \<lparr>SharedPtr.cb = SharedPtr.cb other, SharedPtr.ptr = SharedPtr.ptr other\<rparr>
      in if SharedPtr.cb this \<noteq> None
         then seq (inc_shared st (SharedPtr.cb this)) (\<lambda>st1. Inr (st1, this))
         else Inr (st, this))"

text \<open>The move constructors return the new pointer and the moved-from one.\<close>

definition SharedPtr_move :: "SharedPtr \<Rightarrow> SharedPtr \<times> SharedPtr" where
  "SharedPtr_move other =
     (\<lparr>SharedPtr.cb = SharedPtr.cb other, SharedPtr.ptr = SharedPtr.ptr other\<rparr>,
      other\<lparr>SharedPtr.ptr := None, SharedPtr.cb := None\<rparr>)"

definition SharedPtr_copy_conv ::
  "nat \<Rightarrow> state \<Rightarrow> SharedPtr \<Rightarrow> error + (state \<times> SharedPtr)" where
  "SharedPtr_copy_conv d st other =
     (let this = \<lparr>SharedPtr.cb = SharedPtr.cb other,
                  SharedPtr.ptr = static_cast d (SharedPtr.ptr other)\<rparr>
      in if SharedPtr.cb this \<noteq> None
         then seq (inc_shared st (SharedPtr.cb this)) (\<lambda>st1. Inr (st1, this))
         else Inr (st, this))"

definition SharedPtr_move_conv :: "nat \<Rightarrow> SharedPtr \<Rightarrow> SharedPtr \<times> SharedPtr" where
  "SharedPtr_move_conv d other =
     (\<lparr>SharedPtr.cb = SharedPtr.cb other, SharedPtr.ptr = static_cast d (SharedPtr.ptr other)\<rparr>,
      other\<lparr>SharedPtr.ptr := None, SharedPtr.cb := None\<rparr>)"

definition SharedPtr_dtor :: "state \<Rightarrow> SharedPtr \<Rightarrow> error + (state \<times> SharedPtr)" where
  "SharedPtr_dtor st this =
     (if SharedPtr.cb this = None then Inr (st, this)
      else
        seq (dec_shared st (SharedPtr.cb this)) (\<lambda>st1.
        seq (load st1 (SharedPtr.cb this)) (\<lambda>b.
          if shared_cnt b = 0 then
            seq (useDeleter st1 (SharedPtr.cb this)) (\<lambda>st2.
            seq (Destroy st2 (SharedPtr.cb this)) (\<lambda>st3.
            seq (load st3 (SharedPtr.cb this)) (\<lambda>b3.
              if weak_cnt b3 = 0 then
                seq (Deallocate st3 (SharedPtr.cb this)) (\<lambda>st4. Inr (st4, SharedPtr_default))
              else Inr (st3, SharedPtr_default))))
          else Inr (st1, SharedPtr_default))))"

text \<open>The private constructors: from a combined control block, and from a weak pointer.\<close>

definition SharedPtr_from_cb :: "addr \<Rightarrow> SharedPtr" where
  "SharedPtr_from_cb a = \<lparr>SharedPtr.cb = Some a, SharedPtr.ptr = Some (Ptr (Data a) 0)\<rparr>"

definition SharedPtr_from_weak :: "state \<Rightarrow> WeakPtr \<Rightarrow> error + (state \<times> SharedPtr)" where
  "SharedPtr_from_weak st weak =
     (let this = \<lparr>SharedPtr.cb = WeakPtr.cb weak, SharedPtr.ptr = WeakPtr.ptr weak\<rparr>
      in seq (inc_shared st (SharedPtr.cb this)) (\<lambda>st1. Inr (st1, this)))"

definition SharedPtr_swap :: "SharedPtr \<Rightarrow> SharedPtr \<Rightarrow> SharedPtr \<times> SharedPtr" where
  "SharedPtr_swap this other = (other, this)"

definition SharedPtr_use_count :: "state \<Rightarrow> SharedPtr \<Rightarrow> error + size_t" where
  "SharedPtr_use_count st this = seq (load st (SharedPtr.cb this)) (\<lambda>b. Inr (shared_cnt b))"

definition SharedPtr_get :: "SharedPtr \<Rightarrow> raw_ptr option" where
  "SharedPtr_get this = SharedPtr.ptr this"

text \<open>
  Assignment between two distinct objects (the test \<^verbatim>\<open>this == &other\<close> fails): the
  temporary takes the new value, is swapped with \<open>this\<close> and destroyed.
\<close>

definition SharedPtr_assign_copy ::
  "state \<Rightarrow> SharedPtr \<Rightarrow> SharedPtr \<Rightarrow> error + (state \<times> SharedPtr)" where
  "SharedPtr_assign_copy st this other =
     seq (SharedPtr_copy st other) (\<lambda>(st1, tmp).
       let (this1, tmp1) = SharedPtr_swap this tmp
       in seq (SharedPtr_dtor st1 tmp1) (\<lambda>(st2, tmp2). Inr (st2, this1)))"

definition SharedPtr_assign_move ::
  "state \<Rightarrow> SharedPtr \<Rightarrow> SharedPtr \<Rightarrow> error + (state \<times> SharedPtr \<times> SharedPtr)" where
  "SharedPtr_assign_move st this other =
     (let (tmp, other1) = SharedPtr_move other;
          (this1, tmp1) = SharedPtr_swap this tmp
      in seq (SharedPtr_dtor st tmp1) (\<lambda>(st1, tmp2). Inr (st1, this1, other1)))"

definition SharedPtr_reset :: "state \<Rightarrow> SharedPtr \<Rightarrow> error + (state \<times> SharedPtr)" where
  "SharedPtr_reset st this =
     (let (this1, tmp1) = SharedPtr_swap this SharedPtr_default
      in seq (SharedPtr_dtor st tmp1) (\<lambda>(st1, tmp2). Inr (st1, this1)))"

section \<open>WeakPtr\<close>

definition WeakPtr_from_shared :: "state \<Rightarrow> SharedPtr \<Rightarrow> error + (state \<times> WeakPtr)" where
  "WeakPtr_from_shared st shared =
     (let this = \<lparr>WeakPtr.cb = SharedPtr.cb shared, WeakPtr.ptr = SharedPtr.ptr shared\<rparr>
      in seq (inc_weak st (WeakPtr.cb this)) (\<lambda>st1. Inr (st1, this)))"

definition WeakPtr_from_shared_move ::
  "state \<Rightarrow> SharedPtr \<Rightarrow> error + (state \<times> WeakPtr \<times> SharedPtr)" where
  "WeakPtr_from_shared_move st shared =
     (let this = \<lparr>WeakPtr.cb = SharedPtr.cb shared, WeakPtr.ptr = SharedPtr.ptr shared\<rparr>;
          shared1 = shared\<lparr>SharedPtr.ptr := None, SharedPtr.cb := None\<rparr>
      in seq (dec_shared st (WeakPtr.cb this)) (\<lambda>st1.
         seq (inc_weak st1 (WeakPtr.cb this)) (\<lambda>st2. Inr (st2, this, shared1))))"

definition WeakPtr_from_shared_conv ::
  "nat \<Rightarrow> state \<Rightarrow> SharedPtr \<Rightarrow> error + (state \<times> WeakPtr)" where
  "WeakPtr_from_shared_conv d st shared =
     (let this = \<lparr>WeakPtr.cb = SharedPtr.cb shared,
                  WeakPtr.ptr = static_cast d (SharedPtr.ptr shared)\<rparr>
      in seq (inc_weak st (WeakPtr.cb this)) (\<lambda>st1. Inr (st1, this)))"

definition WeakPtr_from_shared_move_conv ::
  "nat \<Rightarrow> state \<Rightarrow> SharedPtr \<Rightarrow> error + (state \<times> WeakPtr \<times> SharedPtr)" where
  "WeakPtr_from_shared_move_conv d st shared =
     (let this = \<lparr>WeakPtr.cb = SharedPtr.cb shared,
                  WeakPtr.ptr = static_cast d (SharedPtr.ptr shared)\<rparr>;
          shared1 = shared\<lparr>SharedPtr.ptr := None, SharedPtr.cb := None\<rparr>
      in seq (dec_shared st (WeakPtr.cb this)) (\<lambda>st1.
         seq (inc_weak st1 (WeakPtr.cb this)) (\<lambda>st2. Inr (st2, this, shared1))))"

definition WeakPtr_copy :: "state \<Rightarrow> WeakPtr \<Rightarrow> error + (state \<times> WeakPtr)" where
  "WeakPtr_copy st other =
     (let this = \<lparr>WeakPtr.cb = WeakPtr.cb other, WeakPtr.ptr = WeakPtr.ptr other\<rparr>
      in seq (inc_weak st (WeakPtr.cb this)) (\<lambda>st1. Inr (st1, this)))"

definition WeakPtr_move :: "WeakPtr \<Rightarrow> WeakPtr \<times> WeakPtr" where
  "WeakPtr_move other =
     (\<lparr>WeakPtr.cb = WeakPtr.cb other, WeakPtr.ptr = WeakPtr.ptr other\<rparr>,
      other\<lparr>WeakPtr.cb := None, WeakPtr.ptr := None\<rparr>)"

definition WeakPtr_copy_conv :: "nat \<Rightarrow> state \<Rightarrow> WeakPtr \<Rightarrow> error + (state \<times> WeakPtr)" where
  "WeakPtr_copy_conv d st shared =
     (let this = \<lparr>WeakPtr.cb = WeakPtr.cb shared,
                  WeakPtr.ptr = static_cast d (WeakPtr.ptr shared)\<rparr>
      in seq (inc_weak st (WeakPtr.cb this)) (\<lambda>st1. Inr (st1, this)))"

text \<open>
  The converting move constructor \<^verbatim>\<open>WeakPtr(WeakPtr<Derived>&&)\<close>.  Its body is
  \<^verbatim>\<open>++cb->weak_cnt\<close> and nothing else, so the second component of the result, the
  argument after the call, is the argument as it was.
\<close>

definition WeakPtr_move_conv ::
  "nat \<Rightarrow> state \<Rightarrow> WeakPtr \<Rightarrow> error + (state \<times> WeakPtr \<times> WeakPtr)" where
  "WeakPtr_move_conv d st shared =
     (let this = \<lparr>WeakPtr.cb = WeakPtr.cb shared,
                  WeakPtr.ptr = static_cast d (WeakPtr.ptr shared)\<rparr>
      in seq (inc_weak st (WeakPtr.cb this)) (\<lambda>st1. Inr (st1, this, shared)))"

definition WeakPtr_swap :: "WeakPtr \<Rightarrow> WeakPtr \<Rightarrow> WeakPtr \<times> WeakPtr" where
  "WeakPtr_swap this other = (other, this)"

text \<open>
  \<^verbatim>\<open>operator=(const WeakPtr&)\<close> has no self-assignment test.  The argument is read
  once, when the temporary is built and before \<open>this\<close> is written, so the same function
  describes \<^verbatim>\<open>w = v\<close> for distinct objects and \<^verbatim>\<open>w = w\<close>.
\<close>

definition WeakPtr_assign_copy ::
  "state \<Rightarrow> WeakPtr \<Rightarrow> WeakPtr \<Rightarrow> error + (state \<times> WeakPtr)" where
  "WeakPtr_assign_copy st this other =
     seq (WeakPtr_copy st other) (\<lambda>(st1, tmp).
       let (this1, tmp1) = WeakPtr_swap this tmp
       in seq (WeakPtr_dtor st1 tmp1) (\<lambda>(st2, tmp2). Inr (st2, this1)))"

definition WeakPtr_assign_move ::
  "state \<Rightarrow> WeakPtr \<Rightarrow> WeakPtr \<Rightarrow> error + (state \<times> WeakPtr \<times> WeakPtr)" where
  "WeakPtr_assign_move st this other =
     (let (tmp, other1) = WeakPtr_move other;
          (this1, tmp1) = WeakPtr_swap this tmp
      in seq (WeakPtr_dtor st tmp1) (\<lambda>(st1, tmp2). Inr (st1, this1, other1)))"

text \<open>
  The assignment templates return \<^verbatim>\<open>WeakPtr\<close> by value: \<^verbatim>\<open>return *this\<close> copy-constructs
  the result before the temporary is destroyed.  The result is the third component; the
  caller destroys it at the end of the full expression.
\<close>

definition WeakPtr_assign_shared ::
  "nat \<Rightarrow> state \<Rightarrow> WeakPtr \<Rightarrow> SharedPtr \<Rightarrow> error + (state \<times> WeakPtr \<times> WeakPtr)" where
  "WeakPtr_assign_shared d st this shared =
     seq (WeakPtr_from_shared_conv d st shared) (\<lambda>(st1, tmp).
       let (this1, tmp1) = WeakPtr_swap this tmp
       in seq (WeakPtr_copy st1 this1) (\<lambda>(st2, ret).
          seq (WeakPtr_dtor st2 tmp1) (\<lambda>(st3, tmp2). Inr (st3, this1, ret))))"

definition WeakPtr_expired :: "state \<Rightarrow> WeakPtr \<Rightarrow> error + bool" where
  "WeakPtr_expired st this =
     (if WeakPtr.cb this = None then Inr True
      else seq (load st (WeakPtr.cb this)) (\<lambda>b. Inr (shared_cnt b = 0)))"

definition WeakPtr_lock :: "state \<Rightarrow> WeakPtr \<Rightarrow> error + (state \<times> SharedPtr)" where
  "WeakPtr_lock st this = SharedPtr_from_weak st this"

definition WeakPtr_get :: "WeakPtr \<Rightarrow> raw_ptr option" where
  "WeakPtr_get this = WeakPtr.ptr this"

definition WeakPtr_use_count :: "state \<Rightarrow> WeakPtr \<Rightarrow> error + size_t" where
  "WeakPtr_use_count st this = seq (load st (WeakPtr.cb this)) (\<lambda>b. Inr (shared_cnt b))"

section \<open>Adoption, combined allocation, EnableSharedFromThis\<close>

text \<open>
  The statement \<^verbatim>\<open>s->member = s\<close>, for a payload that has an accessible weak-pointer
  member.  The argument is an lvalue \<^verbatim>\<open>SharedPtr<T>\<close>, so the assignment template
  taking \<^verbatim>\<open>const SharedPtr<Derived>&\<close> is selected with \<^verbatim>\<open>Derived = T\<close>; the value it
  returns is a temporary, destroyed at the end of the statement.
\<close>

definition assign_member :: "state \<Rightarrow> object \<Rightarrow> SharedPtr \<Rightarrow> error + state" where
  "assign_member st obj shared =
     (case wptrs st obj of
        None \<Rightarrow> Inl UseAfterFree
      | Some w \<Rightarrow>
          seq (WeakPtr_assign_shared 0 st w shared) (\<lambda>(st1, w1, ret).
          seq (WeakPtr_dtor (st1\<lparr>wptrs := (wptrs st1)(obj \<mapsto> w1)\<rparr>) ret)
            (\<lambda>(st2, ret1). Inr st2)))"

text \<open>
  The constructor \<^verbatim>\<open>SharedPtr(T* ptr, Deleter, Alloc)\<close>.  The flag \<open>esft\<close> is the
  compile-time constant \<^verbatim>\<open>std::is_base_of_v<EnableSharedFromThis<T>, T>\<close>.  When it
  holds, the branch of \<^verbatim>\<open>if constexpr\<close> is instantiated, and its statement
  \<^verbatim>\<open>ptr->wptr = *this\<close> names \<^verbatim>\<open>wptr\<close>, which is a private member of
  \<^verbatim>\<open>EnableSharedFromThis<T>\<close> (declared before \<^verbatim>\<open>public:\<close> in a \<^verbatim>\<open>class\<close> that
  declares no friend).  The constructor is then ill-formed: the header gives no way to
  adopt a raw pointer to such a type.  When the flag does not hold, the branch is
  discarded and the constructor allocates and constructs the control block.
\<close>

definition SharedPtr_adopt ::
  "state \<Rightarrow> raw_ptr option \<Rightarrow> Deleter \<Rightarrow> bool \<Rightarrow> error + (state \<times> SharedPtr)" where
  "SharedPtr_adopt st p deleter esft =
     (if esft then Inl IllFormed
      else
        let (a, st1) = allocate st;
            this = \<lparr>SharedPtr.cb = Some a, SharedPtr.ptr = p\<rparr>;
            st2 = st1\<lparr>blocks := (blocks st1)(a \<mapsto>
                    \<lparr>shared_cnt = 1, weak_cnt = 0, variant = ControlBlockRegular deleter p\<rparr>)\<rparr>
        in Inr (st2, this))"

text \<open>\<^verbatim>\<open>reset(T* ptr, Deleter, Alloc)\<close>: adopt into a temporary, swap, destroy the old value.\<close>

definition SharedPtr_reset_adopt ::
  "state \<Rightarrow> SharedPtr \<Rightarrow> raw_ptr option \<Rightarrow> Deleter \<Rightarrow> bool \<Rightarrow> error + (state \<times> SharedPtr)" where
  "SharedPtr_reset_adopt st this p deleter esft =
     seq (SharedPtr_adopt st p deleter esft) (\<lambda>(st1, tmp).
       let (this1, tmp1) = SharedPtr_swap this tmp
       in seq (SharedPtr_dtor st1 tmp1) (\<lambda>(st2, tmp2). Inr (st2, this1)))"

text \<open>
  \<^verbatim>\<open>allocateShared\<close> builds the payload inside the block; \<open>esft\<close> says whether the
  payload type derives from \<^verbatim>\<open>EnableSharedFromThis\<close>, in which case the new object has
  a default-constructed \<^verbatim>\<open>wptr\<close>, which nothing sets.
\<close>

definition allocateShared :: "state \<Rightarrow> bool \<Rightarrow> state \<times> SharedPtr" where
  "allocateShared st esft =
     (let (a, st1) = allocate st;
          st2 = st1\<lparr>blocks := (blocks st1)(a \<mapsto>
                  \<lparr>shared_cnt = 1, weak_cnt = 0, variant = ControlBlockMakeShared\<rparr>)\<rparr>;
          st3 = (if esft then new_object st2 (Data a) else st2)
      in (st3, SharedPtr_from_cb a))"

definition makeShared :: "state \<Rightarrow> bool \<Rightarrow> state \<times> SharedPtr" where
  "makeShared st esft = allocateShared st esft"

definition shared_from_this :: "state \<Rightarrow> object \<Rightarrow> error + (state \<times> SharedPtr)" where
  "shared_from_this st obj =
     (case wptrs st obj of None \<Rightarrow> Inl UseAfterFree | Some w \<Rightarrow> WeakPtr_lock st w)"

section \<open>Concrete states\<close>

text \<open>
  One control block at address 0, adopting the object \<open>Adopted 0\<close> with a custom
  deleter, with the given counts; and a strong and a weak pointer to it.
\<close>

definition block_of :: "size_t \<Rightarrow> size_t \<Rightarrow> BaseControlBlock" where
  "block_of s w =
     \<lparr>shared_cnt = s, weak_cnt = w,
      variant = ControlBlockRegular custom_deleter (Some (Ptr (Adopted 0) 0))\<rparr>"

definition heap_of :: "BaseControlBlock \<Rightarrow> state" where
  "heap_of b = \<lparr>blocks = [0 \<mapsto> b], next_free = 1, wptrs = Map.empty, trace = []\<rparr>"

definition shared_at0 :: SharedPtr where
  "shared_at0 = \<lparr>SharedPtr.cb = Some 0, SharedPtr.ptr = Some (Ptr (Adopted 0) 0)\<rparr>"

definition weak_at0 :: WeakPtr where
  "weak_at0 = \<lparr>WeakPtr.cb = Some 0, WeakPtr.ptr = Some (Ptr (Adopted 0) 0)\<rparr>"

text \<open>The state after the only strong pointer to that block has been destroyed.\<close>

definition expired_state :: state where
  "expired_state = (heap_of (block_of 0 1))\<lparr>trace := [Deleted 0]\<rparr>"

lemmas prim_defs =
  seq_def with_block_def load_def inc_shared_def dec_shared_def inc_weak_def dec_weak_def

lemmas fixture_defs =
  block_of_def heap_of_def shared_at0_def weak_at0_def init_def expired_state_def

lemmas adopt_defs =
  SharedPtr_adopt_def allocate_def assign_member_def WeakPtr_assign_shared_def
  WeakPtr_from_shared_conv_def
  static_cast_def WeakPtr_swap_def WeakPtr_copy_def WeakPtr_dtor_def WeakPtr_default_def

section \<open>Conversions at offset 0\<close>

text \<open>
  With \<^verbatim>\<open>Derived = T\<close> the cast is the identity, and the constructor templates do what
  the constructors for \<^verbatim>\<open>SharedPtr<T>\<close> do; which of the two overload resolution picks
  makes no difference.
\<close>

lemma static_cast_0: "static_cast 0 p = p"
  by (cases p) (simp_all add: static_cast_def)

lemma WeakPtr_from_shared_conv_0: "WeakPtr_from_shared_conv 0 st s = WeakPtr_from_shared st s"
  by (simp add: WeakPtr_from_shared_conv_def WeakPtr_from_shared_def static_cast_0)

lemma WeakPtr_from_shared_move_conv_0:
  "WeakPtr_from_shared_move_conv 0 st s = WeakPtr_from_shared_move st s"
  by (simp add: WeakPtr_from_shared_move_conv_def WeakPtr_from_shared_move_def static_cast_0)

lemma SharedPtr_copy_conv_0: "SharedPtr_copy_conv 0 st s = SharedPtr_copy st s"
  by (simp add: SharedPtr_copy_conv_def SharedPtr_copy_def static_cast_0)

section \<open>Promotion of a weak pointer\<close>

text \<open>
  \<open>expired_state\<close> is what the public interface produces: adopt a raw pointer, take a
  weak pointer from the strong one, destroy the strong one.
\<close>

lemma expired_state_reachable:
  "seq (SharedPtr_adopt init (Some (Ptr (Adopted 0) 0)) custom_deleter False) (\<lambda>(st1, s).
   seq (WeakPtr_from_shared st1 s) (\<lambda>(st2, w).
   seq (SharedPtr_dtor st2 s) (\<lambda>(st3, s1). Inr (st3, w))))
   = Inr (expired_state, weak_at0)"
  by (simp add: prim_defs fixture_defs SharedPtr_adopt_def allocate_def WeakPtr_from_shared_def
      SharedPtr_dtor_def useDeleter_def Destroy_def call_deleter_def SharedPtr_default_def)

text \<open>
  C1, as stated, fails.  In \<open>expired_state\<close> the weak pointer \<open>weak_at0\<close> has a non-null
  control block whose \<^verbatim>\<open>shared_cnt\<close> is 0, so \<^verbatim>\<open>expired()\<close> is true; yet \<^verbatim>\<open>lock()\<close>
  returns the non-empty strong pointer \<open>shared_at0\<close>, and the block's \<^verbatim>\<open>shared_cnt\<close> is 1
  afterwards.
\<close>

theorem lock_expired_not_empty:
  "WeakPtr_expired expired_state weak_at0 = Inr True \<and>
   WeakPtr_lock expired_state weak_at0 =
     Inr ((heap_of (block_of 1 1))\<lparr>trace := [Deleted 0]\<rparr>, shared_at0) \<and>
   shared_at0 \<noteq> SharedPtr_default"
  by (simp add: prim_defs fixture_defs WeakPtr_expired_def WeakPtr_lock_def
      SharedPtr_from_weak_def SharedPtr_default_def)

text \<open>
  C1, amended: for every weak pointer whose control block is non-null and allocated and
  whose \<^verbatim>\<open>shared_cnt\<close> is 0, \<^verbatim>\<open>expired()\<close> is true and \<^verbatim>\<open>lock()\<close> makes no test of
  its own: it returns a strong pointer with the weak pointer's control block and payload
  pointer, and the block's \<^verbatim>\<open>shared_cnt\<close> goes from 0 to 1.
\<close>

theorem lock_expired_increments:
  assumes "WeakPtr.cb w = Some a" and "blocks st a = Some b" and "shared_cnt b = 0"
  shows "WeakPtr_expired st w = Inr True \<and>
         WeakPtr_lock st w =
           Inr (st\<lparr>blocks := (blocks st)(a \<mapsto> b\<lparr>shared_cnt := 1\<rparr>)\<rparr>,
                \<lparr>SharedPtr.cb = Some a, SharedPtr.ptr = WeakPtr.ptr w\<rparr>)"
  using assms
  by (simp add: prim_defs WeakPtr_expired_def WeakPtr_lock_def SharedPtr_from_weak_def)

text \<open>The amended C1 at \<open>heap_of (block_of 0 1)\<close> and \<open>weak_at0\<close>.\<close>

theorem lock_expired_increments_witness:
  "WeakPtr.cb weak_at0 = Some 0 \<and> blocks (heap_of (block_of 0 1)) 0 = Some (block_of 0 1) \<and>
   shared_cnt (block_of 0 1) = 0 \<and>
   WeakPtr_expired (heap_of (block_of 0 1)) weak_at0 = Inr True \<and>
   WeakPtr_lock (heap_of (block_of 0 1)) weak_at0 = Inr (heap_of (block_of 1 1), shared_at0)"
proof -
  have h1: "WeakPtr.cb weak_at0 = Some 0"
    by (simp add: weak_at0_def)
  have h2: "blocks (heap_of (block_of 0 1)) 0 = Some (block_of 0 1)"
    by (simp add: heap_of_def)
  have h3: "shared_cnt (block_of 0 1) = 0"
    by (simp add: block_of_def)
  show ?thesis
    using lock_expired_increments [OF h1 h2 h3] h1 h2 h3 by (simp add: fixture_defs)
qed

text \<open>
  C6: for every weak pointer with \<^verbatim>\<open>expired() == false\<close> and \<^verbatim>\<open>use_count() == n\<close>,
  \<^verbatim>\<open>lock()\<close> succeeds and returns a strong pointer with the weak pointer's payload
  pointer and control block, whose \<^verbatim>\<open>use_count()\<close> is \<open>n + 1\<close> (in \<^verbatim>\<open>size_t\<close>).
\<close>

theorem lock_live_use_count:
  assumes "WeakPtr_expired st w = Inr False" and "WeakPtr_use_count st w = Inr n"
  shows "case WeakPtr_lock st w of
           Inl e \<Rightarrow> False
         | Inr (st1, s) \<Rightarrow>
             SharedPtr_get s = WeakPtr_get w \<and> SharedPtr.cb s = WeakPtr.cb w \<and>
             SharedPtr_use_count st1 s = Inr (n + 1)"
  using assms
  by (auto simp add: prim_defs WeakPtr_expired_def WeakPtr_use_count_def WeakPtr_lock_def
      SharedPtr_from_weak_def SharedPtr_use_count_def SharedPtr_get_def WeakPtr_get_def
      split: option.splits if_splits)

text \<open>C6 at a block with counts 1 and 1: the locked pointer reads a count of 2.\<close>

theorem lock_live_use_count_witness:
  "WeakPtr_expired (heap_of (block_of 1 1)) weak_at0 = Inr False \<and>
   WeakPtr_use_count (heap_of (block_of 1 1)) weak_at0 = Inr 1 \<and>
   (case WeakPtr_lock (heap_of (block_of 1 1)) weak_at0 of
      Inl e \<Rightarrow> False
    | Inr (st1, s) \<Rightarrow>
        SharedPtr_get s = Some (Ptr (Adopted 0) 0) \<and> SharedPtr_use_count st1 s = Inr 2)"
proof -
  have h1: "WeakPtr_expired (heap_of (block_of 1 1)) weak_at0 = Inr False"
    by (simp add: prim_defs fixture_defs WeakPtr_expired_def)
  have h2: "WeakPtr_use_count (heap_of (block_of 1 1)) weak_at0 = Inr 1"
    by (simp add: prim_defs fixture_defs WeakPtr_use_count_def)
  have "WeakPtr_get weak_at0 = Some (Ptr (Adopted 0) 0)"
    by (simp add: WeakPtr_get_def weak_at0_def)
  with lock_live_use_count [OF h1 h2] h1 h2 show ?thesis
    by (simp split: sum.splits prod.splits)
qed

section \<open>Moving a strong pointer into a weak pointer\<close>

text \<open>
  C7: for every non-empty strong pointer, \<^verbatim>\<open>WeakPtr(SharedPtr<T>&&)\<close> takes 1 from the
  block's \<^verbatim>\<open>shared_cnt\<close>, adds 1 to its \<^verbatim>\<open>weak_cnt\<close>, touches nothing else, and leaves
  the moved-from strong pointer empty; so does the converting constructor
  \<^verbatim>\<open>WeakPtr(SharedPtr<Derived>&&)\<close>.
\<close>

theorem weak_from_shared_move_counts:
  assumes "SharedPtr.cb s = Some a" and "blocks st a = Some b"
  shows "WeakPtr_from_shared_move st s =
           Inr (st\<lparr>blocks := (blocks st)(a \<mapsto>
                      b\<lparr>shared_cnt := shared_cnt b - 1, weak_cnt := weak_cnt b + 1\<rparr>)\<rparr>,
                \<lparr>WeakPtr.cb = Some a, WeakPtr.ptr = SharedPtr.ptr s\<rparr>,
                SharedPtr_default) \<and>
         WeakPtr_from_shared_move_conv d st s =
           Inr (st\<lparr>blocks := (blocks st)(a \<mapsto>
                      b\<lparr>shared_cnt := shared_cnt b - 1, weak_cnt := weak_cnt b + 1\<rparr>)\<rparr>,
                \<lparr>WeakPtr.cb = Some a, WeakPtr.ptr = static_cast d (SharedPtr.ptr s)\<rparr>,
                SharedPtr_default)"
  using assms
  by (simp add: WeakPtr_from_shared_move_def WeakPtr_from_shared_move_conv_def prim_defs
      SharedPtr_default_def)

text \<open>C7 at a block with counts 2 and 0, which become 1 and 1.\<close>

theorem weak_from_shared_move_counts_witness:
  "SharedPtr.cb shared_at0 = Some 0 \<and> blocks (heap_of (block_of 2 0)) 0 = Some (block_of 2 0) \<and>
   WeakPtr_from_shared_move (heap_of (block_of 2 0)) shared_at0 =
     Inr (heap_of (block_of 1 1), weak_at0, SharedPtr_default)"
proof -
  have h1: "SharedPtr.cb shared_at0 = Some 0"
    by (simp add: shared_at0_def)
  have h2: "blocks (heap_of (block_of 2 0)) 0 = Some (block_of 2 0)"
    by (simp add: heap_of_def)
  show ?thesis
    using weak_from_shared_move_counts [OF h1 h2] h1 h2 by (simp add: fixture_defs)
qed

text \<open>
  C2 at the failing input: a raw pointer is adopted, the only strong pointer is moved
  into a weak pointer, the weak pointer is destroyed.  The move leaves the block with
  \<^verbatim>\<open>shared_cnt = 0\<close> and no strong pointer, the trace of the whole run holds the
  deallocation of the block and no call of the deleter.  Destroying the strong pointer
  instead, in the same state, calls the deleter and then deallocates.
\<close>

theorem move_into_weak_skips_deleter:
  "seq (SharedPtr_adopt init (Some (Ptr (Adopted 0) 0)) default_delete False) (\<lambda>(st1, s).
   seq (WeakPtr_from_shared_move st1 s) (\<lambda>(st2, w, s1).
   seq (WeakPtr_dtor st2 w) (\<lambda>(st3, w1). Inr (s1, blocks st2 0, trace st3, blocks st3 0))))
   = Inr (SharedPtr_default,
          Some \<lparr>shared_cnt = 0, weak_cnt = 1,
                variant = ControlBlockRegular default_delete (Some (Ptr (Adopted 0) 0))\<rparr>,
          [Deallocated 0], None) \<and>
   seq (SharedPtr_adopt init (Some (Ptr (Adopted 0) 0)) default_delete False) (\<lambda>(st1, s).
   seq (SharedPtr_dtor st1 s) (\<lambda>(st2, s1). Inr (trace st2, blocks st2 0)))
   = Inr ([Deleted 0, Deallocated 0], None)"
  by (simp add: prim_defs fixture_defs SharedPtr_adopt_def allocate_def
      WeakPtr_from_shared_move_def WeakPtr_dtor_def Deallocate_def SharedPtr_default_def
      SharedPtr_dtor_def useDeleter_def Destroy_def call_deleter_def payload_dtor_def)

section \<open>A payload that observes its own control block\<close>

text \<open>
  When the cleanup does not touch a smart pointer, the block is deallocated once and by
  the second of the two destructors, in either order.
\<close>

lemma last_strong_before_last_weak:
  assumes "SharedPtr.cb s = Some a" and "WeakPtr.cb w = Some a" and "blocks st a = Some b"
    and "shared_cnt b = 1" and "weak_cnt b = 1"
    and "variant b = ControlBlockRegular custom_deleter p"
  shows "seq (SharedPtr_dtor st s) (\<lambda>(st1, s1).
         seq (WeakPtr_dtor st1 w) (\<lambda>(st2, w1).
           Inr (trace st1, blocks st1 a, trace st2, blocks st2 a)))
         = Inr (trace st @ [Deleted a], Some (b\<lparr>shared_cnt := 0\<rparr>),
                trace st @ [Deleted a, Deallocated a], None)"
  using assms
  by (simp add: prim_defs SharedPtr_dtor_def WeakPtr_dtor_def useDeleter_def Destroy_def
      call_deleter_def Deallocate_def SharedPtr_default_def)

lemma last_weak_before_last_strong:
  assumes "SharedPtr.cb s = Some a" and "WeakPtr.cb w = Some a" and "blocks st a = Some b"
    and "shared_cnt b = 1" and "weak_cnt b = 1"
    and "variant b = ControlBlockRegular custom_deleter p"
  shows "seq (WeakPtr_dtor st w) (\<lambda>(st1, w1).
         seq (SharedPtr_dtor st1 s) (\<lambda>(st2, s1).
           Inr (trace st1, blocks st1 a, trace st2, blocks st2 a)))
         = Inr (trace st, Some (b\<lparr>weak_cnt := 0\<rparr>),
                trace st @ [Deleted a, Deallocated a], None)"
  using assms
  by (simp add: prim_defs SharedPtr_dtor_def WeakPtr_dtor_def useDeleter_def Destroy_def
      call_deleter_def Deallocate_def SharedPtr_default_def)

text \<open>
  C3 at the failing input: the payload has a weak-pointer member; the object is adopted
  with the default deleter, the strong pointer is assigned to the member, and the only
  strong pointer is destroyed.  Before the destructor the counts are 1 and 1.  In the
  destructor, \<^verbatim>\<open>useDeleter()\<close> deletes the payload, whose member is the last weak
  pointer: its destructor finds both counts 0 and deallocates the block.  The next
  statement of the strong pointer's destructor, \<^verbatim>\<open>cb->Destroy()\<close>, is then a call
  through a released block, and so the destructor as a whole has undefined behaviour.
\<close>

theorem self_observer_deallocates_inside_dtor:
  "seq (SharedPtr_adopt (new_object init (Adopted 0)) (Some (Ptr (Adopted 0) 0))
          default_delete False) (\<lambda>(st1, s).
   seq (assign_member st1 (Adopted 0) s) (\<lambda>st2.
   seq (dec_shared st2 (SharedPtr.cb s)) (\<lambda>st3.
   seq (useDeleter st3 (SharedPtr.cb s)) (\<lambda>st4.
     Inr (blocks st2 0, trace st4, blocks st4 0, Destroy st4 (SharedPtr.cb s),
          SharedPtr_dtor st2 s)))))
   = Inr (Some \<lparr>shared_cnt = 1, weak_cnt = 1,
                variant = ControlBlockRegular default_delete (Some (Ptr (Adopted 0) 0))\<rparr>,
          [Deleted 0, Deallocated 0], None, Inl UseAfterFree, Inl UseAfterFree)"
  by (simp add: prim_defs fixture_defs adopt_defs new_object_def Deallocate_def
      SharedPtr_dtor_def useDeleter_def Destroy_def call_deleter_def payload_dtor_def
      SharedPtr_default_def)

text \<open>
  What the assignment to the member does when it is accessible: after adopting a fresh
  object and assigning the strong pointer to the object's weak-pointer member, the block
  has counts 1 and 1, the member refers to the block, and nothing has been deleted or
  deallocated.  (The result of the assignment, returned by value, takes \<^verbatim>\<open>weak_cnt\<close> to
  2 and its destruction brings it back to 1.)
\<close>

lemma member_assignment_counts:
  assumes "wptrs st (object_of q) = Some WeakPtr_default"
  shows "seq (SharedPtr_adopt st (Some q) deleter False) (\<lambda>(st1, s).
         seq (assign_member st1 (object_of q) s) (\<lambda>st2.
           Inr (s, blocks st2 (next_free st), wptrs st2 (object_of q), trace st2)))
         = Inr (\<lparr>SharedPtr.cb = Some (next_free st), SharedPtr.ptr = Some q\<rparr>,
                Some \<lparr>shared_cnt = 1, weak_cnt = 1,
                      variant = ControlBlockRegular deleter (Some q)\<rparr>,
                Some \<lparr>WeakPtr.cb = Some (next_free st), WeakPtr.ptr = Some q\<rparr>,
                trace st)"
  using assms by (simp add: prim_defs adopt_defs)

text \<open>
  C8 at the failing input, a raw pointer to an object whose type derives from
  \<^verbatim>\<open>EnableSharedFromThis\<close>: the adopting constructor, and \<^verbatim>\<open>reset(T*)\<close> which calls it,
  are ill-formed for such a type, whatever the pointer, the deleter and the state.  No
  control block with \<^verbatim>\<open>shared_cnt = 1\<close> and \<^verbatim>\<open>weak_cnt = 1\<close> comes to exist, because the
  statement that would install the observer cannot be compiled.  For a type without the
  mixin the same constructor succeeds, with counts 1 and 0.
\<close>

theorem adopt_mixin_ill_formed:
  "SharedPtr_adopt st p deleter True = Inl IllFormed \<and>
   SharedPtr_reset_adopt st this p deleter True = Inl IllFormed \<and>
   SharedPtr_adopt (new_object init (Adopted 0)) (Some (Ptr (Adopted 0) 0)) default_delete True
     = Inl IllFormed \<and>
   seq (SharedPtr_adopt (new_object init (Adopted 0)) (Some (Ptr (Adopted 0) 0))
          default_delete False) (\<lambda>(st1, s). Inr (s, blocks st1 0))
     = Inr (shared_at0,
            Some \<lparr>shared_cnt = 1, weak_cnt = 0,
                  variant = ControlBlockRegular default_delete (Some (Ptr (Adopted 0) 0))\<rparr>)"
  by (simp add: SharedPtr_adopt_def SharedPtr_reset_adopt_def allocate_def new_object_def
      seq_def fixture_defs)

section \<open>Conversions between related types\<close>

text \<open>
  C5: converting a non-empty \<^verbatim>\<open>SharedPtr<Derived>\<close> to \<^verbatim>\<open>SharedPtr<Base>\<close> succeeds; the
  result has the source's control block, no block is allocated (the set of allocated
  blocks and the allocator are as before), \<^verbatim>\<open>use_count()\<close> through the result and
  through the source give the same value (one more than before), and the result's payload
  pointer is the \<^verbatim>\<open>static_cast\<close> of the source's: a pointer into the same object.
\<close>

theorem converting_copy_shares_block:
  assumes "SharedPtr.cb other = Some a" and "blocks st a = Some b"
  shows "case SharedPtr_copy_conv d st other of
           Inl e \<Rightarrow> False
         | Inr (st1, this) \<Rightarrow>
             SharedPtr.cb this = SharedPtr.cb other \<and>
             dom (blocks st1) = dom (blocks st) \<and> next_free st1 = next_free st \<and>
             SharedPtr_use_count st1 this = Inr (shared_cnt b + 1) \<and>
             SharedPtr_use_count st1 other = Inr (shared_cnt b + 1) \<and>
             SharedPtr_get this = static_cast d (SharedPtr_get other) \<and>
             map_option object_of (SharedPtr_get this) =
               map_option object_of (SharedPtr_get other)"
  using assms
  by (auto simp add: prim_defs SharedPtr_copy_conv_def SharedPtr_use_count_def SharedPtr_get_def
      static_cast_def option.map_comp comp_def)

text \<open>C5 at a block with counts 1 and 0 and a base subobject at offset 8.\<close>

theorem converting_copy_shares_block_witness:
  "SharedPtr.cb shared_at0 = Some 0 \<and> blocks (heap_of (block_of 1 0)) 0 = Some (block_of 1 0) \<and>
   SharedPtr_copy_conv 8 (heap_of (block_of 1 0)) shared_at0 =
     Inr (heap_of (block_of 2 0),
          \<lparr>SharedPtr.cb = Some 0, SharedPtr.ptr = Some (Ptr (Adopted 0) 8)\<rparr>)"
proof -
  have h1: "SharedPtr.cb shared_at0 = Some 0"
    by (simp add: shared_at0_def)
  have h2: "blocks (heap_of (block_of 1 0)) 0 = Some (block_of 1 0)"
    by (simp add: heap_of_def)
  have "SharedPtr_copy_conv 8 (heap_of (block_of 1 0)) shared_at0 =
          Inr (heap_of (block_of 2 0),
               \<lparr>SharedPtr.cb = Some 0, SharedPtr.ptr = Some (Ptr (Adopted 0) 8)\<rparr>)"
    using converting_copy_shares_block [OF h1 h2, of 8]
    by (simp add: prim_defs fixture_defs SharedPtr_copy_conv_def static_cast_def)
  with h1 h2 show ?thesis by simp
qed

text \<open>
  The converting move constructor of the weak pointer acts as the converting copy
  constructor does: on a non-empty pointer to a live block it adds 1 to \<^verbatim>\<open>weak_cnt\<close>
  and leaves its argument as it was.
\<close>

lemma weak_converting_move_is_copy:
  assumes "WeakPtr.cb v = Some a" and "blocks st a = Some b"
  shows "WeakPtr_move_conv d st v =
           Inr (st\<lparr>blocks := (blocks st)(a \<mapsto> b\<lparr>weak_cnt := weak_cnt b + 1\<rparr>)\<rparr>,
                \<lparr>WeakPtr.cb = Some a, WeakPtr.ptr = static_cast d (WeakPtr.ptr v)\<rparr>, v)"
    and "WeakPtr_move_conv d st v =
           seq (WeakPtr_copy_conv d st v) (\<lambda>(st1, this). Inr (st1, this, v))"
  using assms by (simp_all add: WeakPtr_move_conv_def WeakPtr_copy_conv_def prim_defs)

text \<open>
  C4 at the failing input: a non-empty \<^verbatim>\<open>WeakPtr<Derived>\<close> to a block with counts 1
  and 1 is passed to the converting move constructor.  The block's \<^verbatim>\<open>weak_cnt\<close> becomes
  2 and the moved-from pointer is what it was, not empty; the plain move constructor,
  on the same pointer, changes no count and empties its argument.
\<close>

theorem weak_converting_move_copies:
  "WeakPtr_move_conv 8 (heap_of (block_of 1 1)) weak_at0 =
     Inr (heap_of (block_of 1 2),
          \<lparr>WeakPtr.cb = Some 0, WeakPtr.ptr = Some (Ptr (Adopted 0) 8)\<rparr>, weak_at0) \<and>
   weak_at0 \<noteq> WeakPtr_default \<and>
   WeakPtr_move weak_at0 = (weak_at0, WeakPtr_default)"
  by (simp add: prim_defs fixture_defs WeakPtr_move_conv_def WeakPtr_move_def static_cast_def
      WeakPtr_default_def)

section \<open>Empty weak pointers\<close>

text \<open>
  C9: on an empty weak pointer \<^verbatim>\<open>expired()\<close> returns true, while \<^verbatim>\<open>lock()\<close> and
  \<^verbatim>\<open>use_count()\<close> dereference the null control block.  On a non-empty weak pointer
  neither \<^verbatim>\<open>lock()\<close> nor \<^verbatim>\<open>use_count()\<close> dereferences null.  \<^verbatim>\<open>expired()\<close> never
  dereferences null, and returns a value for every weak pointer that is empty or refers to
  an allocated block.
\<close>

theorem null_guard_expired_only:
  "WeakPtr_expired st WeakPtr_default = Inr True \<and>
   (WeakPtr.cb w = None \<longrightarrow>
      WeakPtr_expired st w = Inr True \<and> WeakPtr_lock st w = Inl NullDeref \<and>
      WeakPtr_use_count st w = Inl NullDeref) \<and>
   (WeakPtr.cb w \<noteq> None \<longrightarrow>
      WeakPtr_lock st w \<noteq> Inl NullDeref \<and> WeakPtr_use_count st w \<noteq> Inl NullDeref) \<and>
   WeakPtr_expired st w \<noteq> Inl NullDeref \<and>
   ((WeakPtr.cb w = None \<or> (\<exists>a. WeakPtr.cb w = Some a \<and> a \<in> dom (blocks st))) \<longrightarrow>
      (\<exists>r. WeakPtr_expired st w = Inr r))"
  by (auto simp add: prim_defs WeakPtr_expired_def WeakPtr_lock_def SharedPtr_from_weak_def
      WeakPtr_use_count_def WeakPtr_default_def split: option.splits)

text \<open>C9 at the empty weak pointer and at \<open>weak_at0\<close>, in a state with one live block.\<close>

theorem null_guard_expired_only_witness:
  "WeakPtr.cb WeakPtr_default = None \<and> WeakPtr.cb weak_at0 \<noteq> None \<and>
   WeakPtr_expired (heap_of (block_of 1 1)) WeakPtr_default = Inr True \<and>
   WeakPtr_lock (heap_of (block_of 1 1)) WeakPtr_default = Inl NullDeref \<and>
   WeakPtr_use_count (heap_of (block_of 1 1)) WeakPtr_default = Inl NullDeref \<and>
   WeakPtr_lock (heap_of (block_of 1 1)) weak_at0 \<noteq> Inl NullDeref \<and>
   WeakPtr_use_count (heap_of (block_of 1 1)) weak_at0 \<noteq> Inl NullDeref \<and>
   WeakPtr_expired (heap_of (block_of 1 1)) weak_at0 = Inr False"
proof -
  have h1: "WeakPtr.cb WeakPtr_default = None"
    by (simp add: WeakPtr_default_def)
  have h2: "WeakPtr.cb weak_at0 \<noteq> None"
    by (simp add: weak_at0_def)
  have e: "WeakPtr_expired (heap_of (block_of 1 1)) weak_at0 = Inr False"
    by (simp add: prim_defs fixture_defs WeakPtr_expired_def)
  show ?thesis
    using null_guard_expired_only [of "heap_of (block_of 1 1)" WeakPtr_default]
      null_guard_expired_only [of "heap_of (block_of 1 1)" weak_at0] h1 h2 e
    by simp
qed

text \<open>
  Self-assignment of a non-empty weak pointer whose block is live: the temporary adds 1
  to \<^verbatim>\<open>weak_cnt\<close>, its destructor takes 1 away, and the state and the pointer are as
  before.
\<close>

lemma weak_self_assign_nonempty:
  assumes "WeakPtr.cb w = Some a" and "blocks st a = Some b"
    and "weak_cnt b \<noteq> 0 \<or> shared_cnt b \<noteq> 0"
  shows "WeakPtr_assign_copy st w w = Inr (st, w)"
proof -
  have "(blocks st)(a \<mapsto> b) = blocks st"
    using assms(2) by (rule map_upd_triv)
  then have "st\<lparr>blocks := (blocks st)(a \<mapsto> b)\<rparr> = st"
    by simp
  with assms show ?thesis
    by (auto simp add: prim_defs WeakPtr_assign_copy_def WeakPtr_copy_def WeakPtr_swap_def
        WeakPtr_dtor_def)
qed

text \<open>
  C10 at the failing input, the empty weak pointer: \<^verbatim>\<open>w = w\<close> builds the temporary with
  the copy constructor, which increments \<^verbatim>\<open>weak_cnt\<close> through the null control block.
  The copy constructor of the strong pointer tests for null and copies an empty pointer
  without touching anything.
\<close>

theorem weak_self_assign_empty_null_deref:
  "WeakPtr_assign_copy st WeakPtr_default WeakPtr_default = Inl NullDeref \<and>
   WeakPtr_copy st WeakPtr_default = Inl NullDeref \<and>
   SharedPtr_copy st SharedPtr_default = Inr (st, SharedPtr_default)"
  by (simp add: prim_defs WeakPtr_assign_copy_def WeakPtr_copy_def WeakPtr_default_def
      SharedPtr_copy_def SharedPtr_default_def)

end
